theory Spec2Isabelle
  imports Complex_Main
begin

section \<open>Python values the chatbot handles\<close>

text \<open>
  The program is one Streamlit script, \<^verbatim>\<open>streamlit.py\<close>. A Python \<^verbatim>\<open>str\<close> is modelled by
  its UTF-8 encoding as a \<^typ>\<open>string\<close>: the script only tests strings for emptiness,
  compares them and concatenates them, and all three agree with the encoding. Every
  literal of the script that takes part in the logic is ASCII.

  A value decoded from a JSON document is a \<open>json\<close>; an object is kept as an association
  list that is read with \<^const>\<open>map_of\<close>. Numbers are never inspected by the script.
\<close>

datatype json =
    JNull
  | JBool bool
  | JNum real
  | JStr string
  | JArr "json list"
  | JObj "(string \<times> json) list"

text \<open>
  The exceptions that matter. \<open>Timeout\<close> stands for every instance of
  \<^verbatim>\<open>requests.exceptions.Timeout\<close>; \<open>OtherException\<close> for any other subclass of
  \<^verbatim>\<open>Exception\<close> (connection errors, JSON decoding errors), with its message.
\<close>

datatype py_exception =
    Timeout
  | KeyError
  | IndexError
  | TypeError
  | ValueError
  | OtherException string

text \<open>\<^verbatim>\<open>v[k]\<close> for a string key: only a dict can be subscripted by a string.\<close>

fun getitem_key :: "json \<Rightarrow> string \<Rightarrow> py_exception + json" where
  "getitem_key (JObj kvs) k = (case map_of kvs k of None \<Rightarrow> Inl KeyError | Some v \<Rightarrow> Inr v)"
| "getitem_key _ k = Inl TypeError"

definition utf8_continuation :: "char \<Rightarrow> bool" where
  "utf8_continuation c = (128 \<le> (of_char c :: nat) \<and> (of_char c :: nat) < 192)"

text \<open>
  \<^verbatim>\<open>v[0]\<close>: the first element of a list, the first character of a string (one code
  point: a leading byte and its continuation bytes); a dict decoded from JSON has string
  keys only, so \<^verbatim>\<open>0\<close> is never one of them.
\<close>

fun getitem_0 :: "json \<Rightarrow> py_exception + json" where
  "getitem_0 (JArr []) = Inl IndexError"
| "getitem_0 (JArr (x # xs)) = Inr x"
| "getitem_0 (JStr []) = Inl IndexError"
| "getitem_0 (JStr (c # cs)) = Inr (JStr (c # takeWhile utf8_continuation cs))"
| "getitem_0 (JObj kvs) = Inl KeyError"
| "getitem_0 _ = Inl TypeError"

text \<open>\<^verbatim>\<open>xs.index(x)\<close>: the first position of \<open>x\<close>, or \<^verbatim>\<open>ValueError\<close>.\<close>

fun py_index :: "'a list \<Rightarrow> 'a \<Rightarrow> py_exception + nat" where
  "py_index [] x = Inl ValueError"
| "py_index (y # ys) x =
     (if y = x then Inr 0
      else (case py_index ys x of Inl e \<Rightarrow> Inl e | Inr i \<Rightarrow> Inr (Suc i)))"

text \<open>
  \<^verbatim>\<open>xs[-n:]\<close> for \<open>n \<ge> 0\<close>: the last \<open>n\<close> elements, the whole list when it is shorter;
  \<^verbatim>\<open>xs[-0:]\<close> is \<^verbatim>\<open>xs[0:]\<close>, the whole list.
\<close>

definition slice_last :: "nat \<Rightarrow> 'a list \<Rightarrow> 'a list" where
  "slice_last n xs = (if n = 0 then xs else drop (length xs - n) xs)"

section \<open>Static configuration\<close>

record personality =
  description :: string
  system_prompt :: string
  icon :: string

definition math_teacher_system_prompt :: string where
  "math_teacher_system_prompt =
     ''You are a helpful Math Teacher. You ONLY answer questions related to mathematics, including:\<newline>- Arithmetic, algebra, geometry, calculus, statistics\<newline>- Math problem solving and explanations\<newline>- Mathematical concepts and theories\<newline>- Math homework help\<newline>\<newline>If asked about anything outside of mathematics, politely decline and redirect the conversation back to math topics. Always be encouraging and educational in your responses.''"

definition doctor_system_prompt :: string where
  "doctor_system_prompt =
     ''You are a helpful Medical Doctor. You ONLY answer questions related to health and medicine, including:\<newline>- Symptoms and general health information\<newline>- Medical conditions (general information only)\<newline>- Wellness and prevention tips\<newline>- When to seek medical care\<newline>\<newline>IMPORTANT: Always remind users that your advice is for informational purposes only and they should consult with qualified healthcare providers for medical decisions. If asked about anything outside of health and medicine, politely decline and redirect to medical topics.''"

definition travel_guide_system_prompt :: string where
  "travel_guide_system_prompt =
     ''You are an expert Travel Guide. You ONLY answer questions related to travel, including:\<newline>- Destination recommendations and information\<newline>- Travel planning and itineraries\<newline>- Transportation options\<newline>- Accommodation advice\<newline>- Local customs and cultures\<newline>- Travel tips and safety\<newline>\<newline>If asked about anything outside of travel, politely decline and redirect the conversation back to travel-related topics. Be enthusiastic and helpful about travel experiences.''"

definition chef_system_prompt :: string where
  "chef_system_prompt =
     ''You are a professional Chef. You ONLY answer questions related to cooking and food, including:\<newline>- Recipes and cooking instructions\<newline>- Cooking techniques and methods\<newline>- Ingredient substitutions and tips\<newline>- Kitchen equipment advice\<newline>- Food safety and storage\<newline>- Cuisine types and food culture\<newline>\<newline>If asked about anything outside of cooking and food, politely decline and redirect the conversation back to culinary topics. Be passionate and detailed about food and cooking.''"

definition tech_support_system_prompt :: string where
  "tech_support_system_prompt =
     ''You are a Tech Support Specialist. You ONLY answer questions related to technology troubleshooting, including:\<newline>- Computer and device problems\<newline>- Software installation and configuration\<newline>- Network connectivity issues\<newline>- Hardware troubleshooting\<newline>- Operating system help\<newline>- Application support\<newline>\<newline>If asked about anything outside of technical support, politely decline and redirect the conversation back to tech-related topics. Be clear, step-by-step, and patient in your technical explanations.''"

definition math_teacher :: personality where
  "math_teacher =
     \<lparr>description = ''A knowledgeable mathematics teacher who helps with math problems and concepts'',
      system_prompt = math_teacher_system_prompt,
      icon = [CHR 0xF0, CHR 0x9F, CHR 0xA7, CHR 0xAE]\<rparr>"

definition doctor :: personality where
  "doctor =
     \<lparr>description = ''A medical professional providing health information and guidance'',
      system_prompt = doctor_system_prompt,
      icon = [CHR 0xF0, CHR 0x9F, CHR 0xA9, CHR 0xBA]\<rparr>"

definition travel_guide :: personality where
  "travel_guide =
     \<lparr>description = ''An experienced travel expert with tips and destination advice'',
      system_prompt = travel_guide_system_prompt,
      icon = [CHR 0xE2, CHR 0x9C, CHR 0x88, CHR 0xEF, CHR 0xB8, CHR 0x8F]\<rparr>"

definition chef :: personality where
  "chef =
     \<lparr>description = ''A culinary expert specializing in cooking and recipes'',
      system_prompt = chef_system_prompt,
      icon = [CHR 0xF0, CHR 0x9F, CHR 0x91, CHR 0xA8, CHR 0xE2, CHR 0x80, CHR 0x8D, CHR 0xF0, CHR 0x9F, CHR 0x8D, CHR 0xB3]\<rparr>"

definition tech_support :: personality where
  "tech_support =
     \<lparr>description = ''A technical support specialist for devices and software troubleshooting'',
      system_prompt = tech_support_system_prompt,
      icon = [CHR 0xF0, CHR 0x9F, CHR 0x92, CHR 0xBB]\<rparr>"

text \<open>The dict \<^verbatim>\<open>PERSONALITIES\<close>, in insertion order.\<close>

definition PERSONALITIES :: "(string \<times> personality) list" where
  "PERSONALITIES =
     [(''Math Teacher'', math_teacher),
      (''Doctor'', doctor),
      (''Travel Guide'', travel_guide),
      (''Chef'', chef),
      (''Tech Support'', tech_support)]"

definition GROQ_MODELS :: "string list" where
  "GROQ_MODELS =
     [''llama-3.1-70b-versatile'',
      ''llama-3.1-8b-instant'',
      ''llama-3.2-90b-text-preview'',
      ''llama-3.2-11b-text-preview'',
      ''mixtral-8x7b-32768'',
      ''gemma2-9b-it'']"

section \<open>Session state\<close>

text \<open>A transcript entry is the dict \<^verbatim>\<open>{"role": ..., "content": ...}\<close>.\<close>

record message =
  role :: string
  content :: json

text \<open>
  \<^verbatim>\<open>st.session_state\<close> as Streamlit keeps it between runs of the script: each of the four
  keys is present or absent.
\<close>

record session_store =
  st_messages :: "message list option"
  st_groq_api_key :: "string option"
  st_selected_personality :: "string option"
  st_selected_model :: "string option"

text \<open>The session once \<^verbatim>\<open>init_session_state\<close> has run: every key is present.\<close>

record session =
  messages :: "message list"
  groq_api_key :: string
  selected_personality :: string
  selected_model :: string

definition init_session_state :: "session_store \<Rightarrow> session" where
  "init_session_state st =
     \<lparr>messages = (case st_messages st of None \<Rightarrow> [] | Some m \<Rightarrow> m),
      groq_api_key = (case st_groq_api_key st of None \<Rightarrow> [] | Some k \<Rightarrow> k),
      selected_personality =
        (case st_selected_personality st of None \<Rightarrow> ''Math Teacher'' | Some p \<Rightarrow> p),
      selected_model =
        (case st_selected_model st of None \<Rightarrow> ''llama-3.1-70b-versatile'' | Some m \<Rightarrow> m)\<rparr>"

text \<open>What the next run of the script finds in \<^verbatim>\<open>st.session_state\<close>.\<close>

definition persist :: "session \<Rightarrow> session_store" where
  "persist s =
     \<lparr>st_messages = Some (messages s),
      st_groq_api_key = Some (groq_api_key s),
      st_selected_personality = Some (selected_personality s),
      st_selected_model = Some (selected_model s)\<rparr>"

definition fresh_store :: session_store where
  "fresh_store =
     \<lparr>st_messages = None, st_groq_api_key = None,
      st_selected_personality = None, st_selected_model = None\<rparr>"

section \<open>The completion request\<close>

text \<open>
  The JSON body \<^verbatim>\<open>data\<close> and the arguments of \<^verbatim>\<open>requests.post\<close>. The temperature is the
  decimal literal \<^verbatim>\<open>0.7\<close>; no arithmetic is done on it.
\<close>

record groq_data =
  data_model :: string
  data_messages :: "message list"
  data_temperature :: real
  data_max_tokens :: int
  data_stream :: bool

record http_request =
  req_url :: string
  req_headers :: "(string \<times> string) list"
  req_json :: groq_data
  req_timeout :: int

text \<open>
  The endpoint is outside the program: \<^verbatim>\<open>requests.post\<close> is a parameter that maps the
  request to what the call does, a response or an exception. Of a response the script
  reads \<^verbatim>\<open>status_code\<close>, \<^verbatim>\<open>text\<close> and \<^verbatim>\<open>json()\<close>, which decodes the body or raises.
\<close>

record http_response =
  status_code :: int
  body_text :: string
  json_result :: "py_exception + json"

datatype http_outcome =
    Response http_response
  | Raises py_exception

text \<open>
  What a run shows or sends, as far as the properties below need it: the request posted,
  the calls of \<^verbatim>\<open>st.error\<close> and the chat input being offered. Calls that only render text
  (titles, markdown, metrics, the transcript itself) change no state and are left out.
\<close>

datatype error_text =
    ApiError int string
  | Literal string
  | ErrorOf py_exception

datatype ui_event =
    HttpPost http_request
  | StError error_text
  | ChatInput string

text \<open>Lines 103-122: the headers, the body and the fixed arguments of the POST.\<close>

definition groq_request :: "message list \<Rightarrow> string \<Rightarrow> string \<Rightarrow> http_request" where
  "groq_request msgs api_key model =
     \<lparr>req_url = ''https://api.groq.com/openai/v1/chat/completions'',
      req_headers =
        [(''Authorization'', ''Bearer '' @ api_key),
         (''Content-Type'', ''application/json'')],
      req_json =
        \<lparr>data_model = model,
         data_messages = msgs,
         data_temperature = 0.7,
         data_max_tokens = 1024,
         data_stream = False\<rparr>,
      req_timeout = 30\<rparr>"

text \<open>Line 126: \<^verbatim>\<open>result["choices"][0]["message"]["content"]\<close>.\<close>

definition extract_content :: "json \<Rightarrow> py_exception + json" where
  "extract_content result =
     (case getitem_key result ''choices'' of
        Inl e \<Rightarrow> Inl e
      | Inr choices \<Rightarrow>
          (case getitem_0 choices of
             Inl e \<Rightarrow> Inl e
           | Inr choice \<Rightarrow>
               (case getitem_key choice ''message'' of
                  Inl e \<Rightarrow> Inl e
                | Inr msg \<Rightarrow> getitem_key msg ''content'')))"

text \<open>
  The body of the \<^verbatim>\<open>try\<close> (lines 117-129): the value returned with the errors shown, or
  the exception raised.
\<close>

definition try_post :: "(http_request \<Rightarrow> http_outcome) \<Rightarrow> http_request \<Rightarrow>
    py_exception + json \<times> ui_event list" where
  "try_post post request =
     (case post request of
        Raises e \<Rightarrow> Inl e
      | Response response \<Rightarrow>
          if status_code response = 200 then
            (case json_result response of
               Inl e \<Rightarrow> Inl e
             | Inr result \<Rightarrow>
                 (case extract_content result of
                    Inl e \<Rightarrow> Inl e
                  | Inr reply \<Rightarrow> Inr (reply, [])))
          else
            Inr (JStr ''Sorry, I encountered an error processing your request.'',
                 [StError (ApiError (status_code response) (body_text response))]))"

text \<open>
  \<^verbatim>\<open>call_groq_api\<close> with its two handlers (lines 131-136): the reply and the events of
  the call, the request first.
\<close>

definition call_groq_api :: "(http_request \<Rightarrow> http_outcome) \<Rightarrow> message list \<Rightarrow> string \<Rightarrow>
    string \<Rightarrow> json \<times> ui_event list" where
  "call_groq_api post msgs api_key model =
     (let request = groq_request msgs api_key model
      in case try_post post request of
           Inr (reply, shown) \<Rightarrow> (reply, HttpPost request # shown)
         | Inl Timeout \<Rightarrow>
             (JStr ''Request timed out. Please try again.'',
              [HttpPost request, StError (Literal ''Request timed out. Please try again.'')])
         | Inl e \<Rightarrow>
             (JStr ''Sorry, I encountered an error processing your request.'',
              [HttpPost request, StError (ErrorOf e)]))"

section \<open>One run of the script\<close>

text \<open>
  How \<^verbatim>\<open>main\<close> ends: at its last line, at the early \<^verbatim>\<open>return\<close> for a missing key, in
  \<^verbatim>\<open>st.rerun()\<close>, which abandons the run, or in an exception. The session keeps every
  assignment made before that point.
\<close>

datatype ending =
    Completed
  | Returned
  | RerunRequested
  | Raised py_exception

record run_result =
  ending :: ending
  session_after :: session
  events :: "ui_event list"

text \<open>\<^verbatim>\<open>clear_chat\<close> (lines 138-141).\<close>

definition clear_chat :: "session \<Rightarrow> run_result" where
  "clear_chat s =
     \<lparr>ending = RerunRequested, session_after = s\<lparr>messages := []\<rparr>, events = []\<rparr>"

text \<open>Lines 193-196: the selection is stored, and a changed one empties the transcript.\<close>

definition select_personality :: "string \<Rightarrow> session \<Rightarrow> session" where
  "select_personality chosen s =
     (if chosen \<noteq> selected_personality s
      then s\<lparr>selected_personality := chosen, messages := []\<rparr>
      else s)"

text \<open>Lines 257-261: the system message, then \<^verbatim>\<open>messages[-20:]\<close>.\<close>

definition api_messages :: "string \<Rightarrow> message list \<Rightarrow> message list" where
  "api_messages personality_prompt msgs =
     \<lparr>role = ''system'', content = JStr personality_prompt\<rparr> # slice_last 20 msgs"

text \<open>Lines 250-270: one user turn, from the submitted prompt to the stored reply.\<close>

definition chat_turn :: "(http_request \<Rightarrow> http_outcome) \<Rightarrow> string \<Rightarrow> string \<Rightarrow> string \<Rightarrow>
    string \<Rightarrow> session \<Rightarrow> run_result" where
  "chat_turn post api_key model chosen prompt s =
     (let s1 = s\<lparr>messages := messages s @ [\<lparr>role = ''user'', content = JStr prompt\<rparr>]\<rparr>
      in case map_of PERSONALITIES chosen of
           None \<Rightarrow> \<lparr>ending = Raised KeyError, session_after = s1, events = []\<rparr>
         | Some info \<Rightarrow>
             (let (response, shown) =
                    call_groq_api post (api_messages (system_prompt info) (messages s1))
                      api_key model
              in \<lparr>ending = Completed,
                  session_after =
                    s1\<lparr>messages := messages s1 @ [\<lparr>role = ''assistant'', content = response\<rparr>]\<rparr>,
                  events = shown\<rparr>))"

text \<open>
  The values the widgets return in one run: the key field, the two select boxes, the
  clear button and the chat input (\<open>None\<close> when nothing was submitted).
\<close>

record widgets =
  w_api_key :: string
  w_model :: string
  w_personality :: string
  w_clear_chat :: bool
  w_prompt :: "string option"

text \<open>
  \<^verbatim>\<open>main\<close> (lines 143-270). The chat input is offered only past the early return; a prompt
  counts when it is a non-empty string (\<^verbatim>\<open>if prompt := ...\<close>).
\<close>

definition main :: "(http_request \<Rightarrow> http_outcome) \<Rightarrow> widgets \<Rightarrow> session_store \<Rightarrow> run_result" where
  "main post w store =
     (let api_key = w_api_key w;
          s1 = (init_session_state store)\<lparr>groq_api_key := api_key\<rparr>
      in case py_index GROQ_MODELS (selected_model s1) of
           Inl e \<Rightarrow> \<lparr>ending = Raised e, session_after = s1, events = []\<rparr>
         | Inr _ \<Rightarrow>
      (let model = w_model w;
           s2 = s1\<lparr>selected_model := model\<rparr>
       in case py_index (map fst PERSONALITIES) (selected_personality s2) of
            Inl e \<Rightarrow> \<lparr>ending = Raised e, session_after = s2, events = []\<rparr>
          | Inr _ \<Rightarrow>
      (let chosen = w_personality w;
           s3 = select_personality chosen s2
       in case map_of PERSONALITIES chosen of
            None \<Rightarrow> \<lparr>ending = Raised KeyError, session_after = s3, events = []\<rparr>
          | Some info \<Rightarrow>
              if w_clear_chat w then clear_chat s3
              else if api_key = [] then
                \<lparr>ending = Returned, session_after = s3, events = []\<rparr>
              else
                (let offered = ChatInput (''Ask '' @ chosen @ '' a question...'')
                 in case w_prompt w of
                      None \<Rightarrow> \<lparr>ending = Completed, session_after = s3, events = [offered]\<rparr>
                    | Some prompt \<Rightarrow>
                        if prompt = [] then
                          \<lparr>ending = Completed, session_after = s3, events = [offered]\<rparr>
                        else
                          (let r = chat_turn post api_key model chosen prompt s3
                           in r\<lparr>events := offered # events r\<rparr>)))))"

section \<open>Notions used to state the properties\<close>

text \<open>The requests a run has posted and the chat inputs it has offered, in order.\<close>

fun posted :: "ui_event list \<Rightarrow> http_request list" where
  "posted [] = []"
| "posted (HttpPost request # es) = request # posted es"
| "posted (_ # es) = posted es"

fun offered :: "ui_event list \<Rightarrow> string list" where
  "offered [] = []"
| "offered (ChatInput label # es) = label # offered es"
| "offered (_ # es) = offered es"

text \<open>
  A well-formed transcript: user and assistant entries in pairs, each user entry directly
  followed by an assistant entry.
\<close>

fun alternating :: "message list \<Rightarrow> bool" where
  "alternating [] = True"
| "alternating [m] = False"
| "alternating (u # a # rest) =
     (role u = ''user'' \<and> role a = ''assistant'' \<and> alternating rest)"

text \<open>
  The stores a session can hold between runs: the fresh one, and the one any run of
  \<^const>\<open>main\<close> leaves behind, whatever the widgets return, whatever the endpoint does and
  however the run ends.
\<close>

inductive reachable :: "session_store \<Rightarrow> bool" where
  fresh: "reachable fresh_store"
| run: "reachable store \<Longrightarrow> reachable (persist (session_after (main post w store)))"

subsection \<open>Concrete inputs\<close>

definition timeout_endpoint :: "http_request \<Rightarrow> http_outcome" where
  "timeout_endpoint request = Raises Timeout"

definition failing_endpoint :: "http_request \<Rightarrow> http_outcome" where
  "failing_endpoint request =
     Response \<lparr>status_code = 500, body_text = ''unavailable'',
               json_result = Inl (OtherException ''JSONDecodeError'')\<rparr>"

definition answering_endpoint :: "http_request \<Rightarrow> http_outcome" where
  "answering_endpoint request =
     Response \<lparr>status_code = 200, body_text = [],
               json_result = Inr (JObj [(''choices'',
                 JArr [JObj [(''message'',
                   JObj [(''role'', JStr ''assistant''), (''content'', JStr ''4'')])]])])\<rparr>"

definition empty_session :: session where
  "empty_session = init_session_state fresh_store"

definition chef_question :: widgets where
  "chef_question =
     \<lparr>w_api_key = ''k'', w_model = ''gemma2-9b-it'', w_personality = ''Chef'',
      w_clear_chat = False, w_prompt = Some ''hi''\<rparr>"

definition chef_selected :: widgets where
  "chef_selected =
     \<lparr>w_api_key = [], w_model = ''gemma2-9b-it'', w_personality = ''Chef'',
      w_clear_chat = False, w_prompt = None\<rparr>"

section \<open>Basic facts\<close>

lemma slice_last_20: "slice_last 20 xs = drop (length xs - min (length xs) 20) xs"
  by (simp add: slice_last_def min_def)

lemma init_persist: "init_session_state (persist s) = s"
  by (simp add: init_session_state_def persist_def)

lemma init_fresh: "messages (init_session_state fresh_store) = []"
  by (simp add: init_session_state_def fresh_store_def)

lemma chef_known: "map_of PERSONALITIES ''Chef'' = Some chef"
  by (simp add: PERSONALITIES_def)

lemma groq_request_messages: "data_messages (req_json (groq_request msgs k m)) = msgs"
  by (simp add: groq_request_def)

lemma messages_select:
  "messages (select_personality chosen s) =
     (if chosen \<noteq> selected_personality s then [] else messages s)"
  by (simp add: select_personality_def)

subsection \<open>The completion call, branch by branch\<close>

lemma call_non_200:
  assumes "post (groq_request msgs k m) = Response r" and "status_code r \<noteq> 200"
  shows "call_groq_api post msgs k m =
    (JStr ''Sorry, I encountered an error processing your request.'',
     [HttpPost (groq_request msgs k m), StError (ApiError (status_code r) (body_text r))])"
  using assms by (simp add: call_groq_api_def try_post_def)

lemma call_raises:
  assumes "post (groq_request msgs k m) = Raises e"
  shows "call_groq_api post msgs k m =
    (if e = Timeout
     then (JStr ''Request timed out. Please try again.'',
           [HttpPost (groq_request msgs k m),
            StError (Literal ''Request timed out. Please try again.'')])
     else (JStr ''Sorry, I encountered an error processing your request.'',
           [HttpPost (groq_request msgs k m), StError (ErrorOf e)]))"
  using assms by (cases e) (simp_all add: call_groq_api_def try_post_def)

lemma posted_call: "posted (snd (call_groq_api post msgs k m)) = [groq_request msgs k m]"
  by (auto simp: call_groq_api_def try_post_def Let_def
      split: sum.splits http_outcome.splits py_exception.splits prod.splits if_splits)

lemma extract_content_iff:
  "extract_content result = Inr reply \<longleftrightarrow>
     (\<exists>body choice others msg.
        result = JObj body \<and> map_of body ''choices'' = Some (JArr (JObj choice # others))
        \<and> map_of choice ''message'' = Some (JObj msg) \<and> map_of msg ''content'' = Some reply)"
proof
  assume a: "extract_content result = Inr reply"
  then obtain body where b: "result = JObj body"
    by (cases result) (simp_all add: extract_content_def)
  from a b obtain choices where c: "map_of body ''choices'' = Some choices"
    by (cases "map_of body ''choices''") (simp_all add: extract_content_def)
  from a b c obtain choice where d: "getitem_0 choices = Inr choice"
    by (cases "getitem_0 choices") (simp_all add: extract_content_def)
  from a b c d obtain cb where e: "choice = JObj cb"
    by (cases choice) (simp_all add: extract_content_def)
  from d e obtain others where f: "choices = JArr (JObj cb # others)"
    by (cases choices rule: getitem_0.cases) auto
  from a b c d e obtain msg where g: "map_of cb ''message'' = Some msg"
    by (cases "map_of cb ''message''") (simp_all add: extract_content_def)
  from a b c d e g obtain mb where h: "msg = JObj mb"
    by (cases msg) (simp_all add: extract_content_def)
  from a b c d e g h have "map_of mb ''content'' = Some reply"
    by (cases "map_of mb ''content''") (simp_all add: extract_content_def)
  with b c f g h show "\<exists>body choice others msg.
        result = JObj body \<and> map_of body ''choices'' = Some (JArr (JObj choice # others))
        \<and> map_of choice ''message'' = Some (JObj msg) \<and> map_of msg ''content'' = Some reply"
    by blast
next
  assume "\<exists>body choice others msg.
        result = JObj body \<and> map_of body ''choices'' = Some (JArr (JObj choice # others))
        \<and> map_of choice ''message'' = Some (JObj msg) \<and> map_of msg ''content'' = Some reply"
  then show "extract_content result = Inr reply"
    by (auto simp: extract_content_def)
qed

lemma call_200:
  assumes "post (groq_request msgs k m) = Response r" and "status_code r = 200"
    and "json_result r = Inr result" and "extract_content result = Inr reply"
  shows "call_groq_api post msgs k m = (reply, [HttpPost (groq_request msgs k m)])"
  using assms by (simp add: call_groq_api_def try_post_def)

lemma call_200_malformed:
  assumes "post (groq_request msgs k m) = Response r" and "status_code r = 200"
    and "json_result r = Inr result" and "extract_content result = Inl e" and "e \<noteq> Timeout"
  shows "fst (call_groq_api post msgs k m) =
    JStr ''Sorry, I encountered an error processing your request.''"
  using assms by (cases e) (simp_all add: call_groq_api_def try_post_def)

subsection \<open>A turn and a whole run\<close>

lemma chat_turn_known:
  assumes "map_of PERSONALITIES chosen = Some info"
  shows "chat_turn post k m chosen prompt s =
    \<lparr>ending = Completed,
     session_after = s\<lparr>messages := messages s @
       [\<lparr>role = ''user'', content = JStr prompt\<rparr>,
        \<lparr>role = ''assistant'', content = fst (call_groq_api post
           (api_messages (system_prompt info)
              (messages s @ [\<lparr>role = ''user'', content = JStr prompt\<rparr>])) k m)\<rparr>]\<rparr>,
     events = snd (call_groq_api post
           (api_messages (system_prompt info)
              (messages s @ [\<lparr>role = ''user'', content = JStr prompt\<rparr>])) k m)\<rparr>"
  using assms by (simp add: chat_turn_def Let_def split: prod.splits)

lemma chat_turn_posted:
  assumes "map_of PERSONALITIES chosen = Some info"
  shows "posted (events (chat_turn post k m chosen prompt s)) =
    [groq_request (api_messages (system_prompt info)
       (messages s @ [\<lparr>role = ''user'', content = JStr prompt\<rparr>])) k m]"
  using assms by (simp add: chat_turn_known posted_call)

lemma alternating_append:
  "alternating xs \<Longrightarrow>
   alternating (xs @ [u, a]) = (role u = ''user'' \<and> role a = ''assistant'')"
  by (induction xs rule: alternating.induct) auto

lemma py_index_error:
  fixes xs :: "'a list"
  shows "py_index xs x = Inl e \<Longrightarrow> e = ValueError"
  by (induction xs arbitrary: e) (auto split: if_splits sum.splits)

lemma main_key: "groq_api_key (session_after (main post w store)) = w_api_key w"
  by (auto simp: main_def Let_def clear_chat_def chat_turn_def select_personality_def
      split: sum.splits option.splits if_splits prod.splits)

lemma main_turn:
  assumes "ending (main post w store) = Completed" and "w_prompt w = Some p" and "p \<noteq> []"
  shows "\<exists>info. map_of PERSONALITIES (w_personality w) = Some info \<and> w_api_key w \<noteq> [] \<and>
     main post w store =
       (let r = chat_turn post (w_api_key w) (w_model w) (w_personality w) p
            (select_personality (w_personality w)
              ((init_session_state store)
                 \<lparr>groq_api_key := w_api_key w, selected_model := w_model w\<rparr>))
        in r\<lparr>events := ChatInput (''Ask '' @ w_personality w @ '' a question...'') # events r\<rparr>)"
  using assms
  by (auto simp: main_def Let_def clear_chat_def split: sum.splits option.splits if_splits)

lemma main_preserves:
  assumes "alternating (messages (init_session_state store))"
  shows "alternating (messages (session_after (main post w store)))"
  using assms
  by (auto simp: main_def Let_def clear_chat_def chat_turn_def messages_select alternating_append
      split: sum.splits option.splits if_splits prod.splits)

lemma reachable_alternating:
  "reachable store \<Longrightarrow> alternating (messages (init_session_state store))"
proof (induction rule: reachable.induct)
  case fresh
  show ?case by (simp add: init_fresh)
next
  case (run store post w)
  then show ?case by (simp add: init_persist main_preserves)
qed

lemma main_no_key:
  assumes "w_api_key w = []"
  shows "events (main post w store) = []"
    and "ending (main post w store) \<noteq> Completed"
    and "messages (session_after (main post w store)) = [] \<or>
         messages (session_after (main post w store)) = messages (init_session_state store)"
  using assms
  by (auto simp: main_def Let_def clear_chat_def messages_select
      split: sum.splits option.splits if_splits)

lemma main_switch:
  assumes "w_personality w \<noteq> selected_personality (init_session_state store)"
    and "w_prompt w = None" and "ending (main post w store) \<noteq> Raised ValueError"
  shows "messages (session_after (main post w store)) = []"
  using assms
  by (auto simp: main_def Let_def clear_chat_def messages_select
      dest: py_index_error split: sum.splits option.splits if_splits)

lemma chef_run_completed: "ending (main timeout_endpoint chef_question fresh_store) = Completed"
  by (simp add: main_def chef_question_def fresh_store_def init_session_state_def GROQ_MODELS_def
      PERSONALITIES_def select_personality_def chat_turn_def call_groq_api_def try_post_def
      timeout_endpoint_def Let_def)

lemma chef_selected_run:
  "main post chef_selected (persist \<lparr>messages = ms, groq_api_key = [],
      selected_personality = ''Doctor'', selected_model = ''gemma2-9b-it''\<rparr>) =
   \<lparr>ending = Returned,
    session_after = \<lparr>messages = [], groq_api_key = [],
      selected_personality = ''Chef'', selected_model = ''gemma2-9b-it''\<rparr>,
    events = []\<rparr>"
  by (simp add: main_def chef_selected_def init_persist GROQ_MODELS_def
      PERSONALITIES_def select_personality_def Let_def)

lemma main_posted_bodies:
  assumes "k1 \<noteq> []" and "k2 \<noteq> []"
  shows "map req_json (posted (events (main post (w\<lparr>w_api_key := k1\<rparr>) store))) =
         map req_json (posted (events (main post (w\<lparr>w_api_key := k2\<rparr>) store)))"
  using assms
  by (auto simp: main_def Let_def clear_chat_def chat_turn_known posted_call groq_request_def
      select_personality_def
      split: sum.splits option.splits if_splits)

section \<open>The request list of a turn\<close>

text \<open>
  C1: for a transcript \<open>T\<close> of \<open>N\<close> entries and a personality \<open>P\<close>, the assembled list has
  \<open>min N 20 + 1\<close> elements, its element 0 is the system message carrying the system prompt
  of \<open>P\<close>, and the rest is the last \<open>min N 20\<close> entries of \<open>T\<close> in their order. A turn posts
  exactly one request, and its messages are this list for the transcript with the new user
  message appended.
\<close>

theorem api_messages_window:
  "length (api_messages (system_prompt P) T) = min (length T) 20 + 1
   \<and> api_messages (system_prompt P) T ! 0 =
       \<lparr>role = ''system'', content = JStr (system_prompt P)\<rparr>
   \<and> drop 1 (api_messages (system_prompt P) T) = drop (length T - min (length T) 20) T
   \<and> (map_of PERSONALITIES chosen = Some P \<longrightarrow>
        map (\<lambda>request. data_messages (req_json request))
          (posted (events (chat_turn post k m chosen prompt s))) =
        [api_messages (system_prompt P)
           (messages s @ [\<lparr>role = ''user'', content = JStr prompt\<rparr>])])"
  by (simp add: api_messages_def slice_last_20 chat_turn_posted groq_request_messages)

theorem api_messages_window_witness:
  "map_of PERSONALITIES ''Chef'' = Some chef
   \<and> length (api_messages (system_prompt chef) []) = 1
   \<and> map (\<lambda>request. data_messages (req_json request))
        (posted (events (chat_turn timeout_endpoint ''k'' ''gemma2-9b-it'' ''Chef'' ''hi''
           empty_session))) =
      [[\<lparr>role = ''system'', content = JStr (system_prompt chef)\<rparr>,
        \<lparr>role = ''user'', content = JStr ''hi''\<rparr>]]"
  using api_messages_window [of chef "[]" "''Chef''" timeout_endpoint "''k''" "''gemma2-9b-it''"
      "''hi''" empty_session]
  by (simp add: chef_known empty_session_def init_fresh api_messages_def slice_last_def)

text \<open>
  C9: the last element of the assembled list is the user message just appended, so the
  window of 20 never drops the current question; this is the last message of the request
  the turn posts.
\<close>

theorem current_question_kept:
  "last (api_messages personality_prompt (T @ [\<lparr>role = ''user'', content = JStr prompt\<rparr>])) =
     \<lparr>role = ''user'', content = JStr prompt\<rparr>
   \<and> (map_of PERSONALITIES chosen = Some info \<longrightarrow>
        map (\<lambda>request. last (data_messages (req_json request)))
          (posted (events (chat_turn post k m chosen prompt s))) =
        [\<lparr>role = ''user'', content = JStr prompt\<rparr>])"
  by (simp add: chat_turn_posted groq_request_messages) (simp add: api_messages_def slice_last_def)

theorem current_question_kept_witness:
  "map_of PERSONALITIES ''Chef'' = Some chef
   \<and> map (\<lambda>request. last (data_messages (req_json request)))
        (posted (events (chat_turn timeout_endpoint ''k'' ''gemma2-9b-it'' ''Chef'' ''hi''
           empty_session))) =
      [\<lparr>role = ''user'', content = JStr ''hi''\<rparr>]"
  using current_question_kept [of _ "[]" "''hi''" "''Chef''" chef timeout_endpoint "''k''"
      "''gemma2-9b-it''" empty_session]
  by (simp add: chef_known)

section \<open>Clearing the chat\<close>

text \<open>
  C6: clearing the chat empties the transcript and leaves the selected personality and
  the selected model as they were (the key too); the run then ends in a rerun.
\<close>

theorem clear_chat_frame:
  "messages (session_after (clear_chat s)) = []
   \<and> selected_personality (session_after (clear_chat s)) = selected_personality s
   \<and> selected_model (session_after (clear_chat s)) = selected_model s
   \<and> groq_api_key (session_after (clear_chat s)) = groq_api_key s
   \<and> ending (clear_chat s) = RerunRequested"
  by (simp add: clear_chat_def)

section \<open>Turns and the shape of the transcript\<close>

text \<open>
  C2: a run that completes a user turn leaves the transcript it started the turn with
  (the stored one, or the empty one after a change of personality) followed by exactly
  two entries, the user message and then an assistant message, whatever the endpoint
  does; and in every reachable store the transcript is alternating.
\<close>

theorem turn_appends_user_then_assistant:
  "(ending (main post w store) = Completed \<longrightarrow> w_prompt w = Some p \<longrightarrow> p \<noteq> [] \<longrightarrow>
      (\<exists>reply. messages (session_after (main post w store)) =
         messages (select_personality (w_personality w) (init_session_state store)) @
         [\<lparr>role = ''user'', content = JStr p\<rparr>, \<lparr>role = ''assistant'', content = reply\<rparr>]))
   \<and> (reachable st \<longrightarrow> alternating (messages (init_session_state st)))"
proof (intro conjI impI)
  assume a: "ending (main post w store) = Completed" "w_prompt w = Some p" "p \<noteq> []"
  from main_turn [OF a] obtain info where
    i: "map_of PERSONALITIES (w_personality w) = Some info" and
    m: "main post w store =
       (let r = chat_turn post (w_api_key w) (w_model w) (w_personality w) p
            (select_personality (w_personality w)
              ((init_session_state store)
                 \<lparr>groq_api_key := w_api_key w, selected_model := w_model w\<rparr>))
        in r\<lparr>events := ChatInput (''Ask '' @ w_personality w @ '' a question...'') # events r\<rparr>)"
    by blast
  show "\<exists>reply. messages (session_after (main post w store)) =
         messages (select_personality (w_personality w) (init_session_state store)) @
         [\<lparr>role = ''user'', content = JStr p\<rparr>, \<lparr>role = ''assistant'', content = reply\<rparr>]"
    by (simp add: m Let_def chat_turn_known [OF i] messages_select)
next
  assume "reachable st"
  then show "alternating (messages (init_session_state st))"
    by (rule reachable_alternating)
qed

theorem turn_appends_user_then_assistant_witness:
  "ending (main timeout_endpoint chef_question fresh_store) = Completed
   \<and> w_prompt chef_question = Some ''hi''
   \<and> (\<exists>reply. messages (session_after (main timeout_endpoint chef_question fresh_store)) =
        [\<lparr>role = ''user'', content = JStr ''hi''\<rparr>, \<lparr>role = ''assistant'', content = reply\<rparr>])
   \<and> reachable (persist (session_after (main timeout_endpoint chef_question fresh_store)))
   \<and> alternating (messages (init_session_state
        (persist (session_after (main timeout_endpoint chef_question fresh_store)))))"
proof -
  have r: "reachable (persist (session_after (main timeout_endpoint chef_question fresh_store)))"
    by (rule reachable.run [OF reachable.fresh])
  have p: "w_prompt chef_question = Some ''hi''" "w_personality chef_question = ''Chef''"
    by (simp_all add: chef_question_def)
  have s: "messages (select_personality ''Chef'' (init_session_state fresh_store)) = []"
    by (simp add: messages_select init_fresh)
  show ?thesis
    using turn_appends_user_then_assistant
      [of timeout_endpoint chef_question fresh_store "''hi''"
        "persist (session_after (main timeout_endpoint chef_question fresh_store))"]
      chef_run_completed r p s
    by simp
qed

section \<open>Switching the personality\<close>

text \<open>
  C3: selecting a personality other than the stored one empties the transcript, whatever
  it held: this is the session right after lines 193-196, and the session a run leaves
  when it reaches these lines and no prompt is submitted in it.
\<close>

theorem personality_switch_clears:
  "(chosen \<noteq> selected_personality s \<longrightarrow>
      messages (select_personality chosen s) = []
      \<and> selected_personality (select_personality chosen s) = chosen)
   \<and> (w_personality w \<noteq> selected_personality (init_session_state store) \<longrightarrow>
      w_prompt w = None \<longrightarrow> ending (main post w store) \<noteq> Raised ValueError \<longrightarrow>
      messages (session_after (main post w store)) = [])"
  by (simp add: main_switch) (simp add: select_personality_def)

theorem personality_switch_clears_witness:
  "''Chef'' \<noteq> selected_personality
      \<lparr>messages = [\<lparr>role = ''user'', content = JStr ''hi''\<rparr>,
                   \<lparr>role = ''assistant'', content = JStr ''hello''\<rparr>],
       groq_api_key = [], selected_personality = ''Doctor'',
       selected_model = ''gemma2-9b-it''\<rparr>
   \<and> messages (select_personality ''Chef''
      \<lparr>messages = [\<lparr>role = ''user'', content = JStr ''hi''\<rparr>,
                   \<lparr>role = ''assistant'', content = JStr ''hello''\<rparr>],
       groq_api_key = [], selected_personality = ''Doctor'',
       selected_model = ''gemma2-9b-it''\<rparr>) = []
   \<and> ending (main timeout_endpoint chef_selected (persist
      \<lparr>messages = [\<lparr>role = ''user'', content = JStr ''hi''\<rparr>,
                   \<lparr>role = ''assistant'', content = JStr ''hello''\<rparr>],
       groq_api_key = [], selected_personality = ''Doctor'',
       selected_model = ''gemma2-9b-it''\<rparr>)) = Returned
   \<and> messages (session_after (main timeout_endpoint chef_selected (persist
      \<lparr>messages = [\<lparr>role = ''user'', content = JStr ''hi''\<rparr>,
                   \<lparr>role = ''assistant'', content = JStr ''hello''\<rparr>],
       groq_api_key = [], selected_personality = ''Doctor'',
       selected_model = ''gemma2-9b-it''\<rparr>))) = []"
  using personality_switch_clears [of "''Chef''"
      "\<lparr>messages = [\<lparr>role = ''user'', content = JStr ''hi''\<rparr>,
                   \<lparr>role = ''assistant'', content = JStr ''hello''\<rparr>],
       groq_api_key = [], selected_personality = ''Doctor'',
       selected_model = ''gemma2-9b-it''\<rparr>"
      chef_selected
      "persist \<lparr>messages = [\<lparr>role = ''user'', content = JStr ''hi''\<rparr>,
                   \<lparr>role = ''assistant'', content = JStr ''hello''\<rparr>],
       groq_api_key = [], selected_personality = ''Doctor'',
       selected_model = ''gemma2-9b-it''\<rparr>"
      timeout_endpoint]
  by (simp add: chef_selected_run)

section \<open>Failures of the completion call\<close>

text \<open>
  C4: when the endpoint answers with a status other than 200, the call returns the fixed
  text "Sorry, I encountered an error processing your request." (and shows the error),
  and the turn completes with exactly one assistant message, carrying that text, appended
  after the user message.
\<close>

theorem non_200_fallback:
  "(post (groq_request msgs k m) = Response r \<longrightarrow> status_code r \<noteq> 200 \<longrightarrow>
      call_groq_api post msgs k m =
        (JStr ''Sorry, I encountered an error processing your request.'',
         [HttpPost (groq_request msgs k m),
          StError (ApiError (status_code r) (body_text r))]))
   \<and> (map_of PERSONALITIES chosen = Some info \<longrightarrow>
      post (groq_request (api_messages (system_prompt info)
        (messages s @ [\<lparr>role = ''user'', content = JStr prompt\<rparr>])) k m) = Response r \<longrightarrow>
      status_code r \<noteq> 200 \<longrightarrow>
      ending (chat_turn post k m chosen prompt s) = Completed
      \<and> messages (session_after (chat_turn post k m chosen prompt s)) =
        (messages s @ [\<lparr>role = ''user'', content = JStr prompt\<rparr>]) @
        [\<lparr>role = ''assistant'',
          content = JStr ''Sorry, I encountered an error processing your request.''\<rparr>])"
  by (simp add: call_non_200 chat_turn_known)

theorem non_200_fallback_witness:
  "failing_endpoint (groq_request [] ''k'' ''gemma2-9b-it'') =
     Response \<lparr>status_code = 500, body_text = ''unavailable'',
               json_result = Inl (OtherException ''JSONDecodeError'')\<rparr>
   \<and> fst (call_groq_api failing_endpoint [] ''k'' ''gemma2-9b-it'') =
       JStr ''Sorry, I encountered an error processing your request.''
   \<and> map_of PERSONALITIES ''Chef'' = Some chef
   \<and> messages (session_after
        (chat_turn failing_endpoint ''k'' ''gemma2-9b-it'' ''Chef'' ''hi'' empty_session)) =
       [\<lparr>role = ''user'', content = JStr ''hi''\<rparr>,
        \<lparr>role = ''assistant'',
          content = JStr ''Sorry, I encountered an error processing your request.''\<rparr>]"
  using non_200_fallback [of failing_endpoint "[]" "''k''" "''gemma2-9b-it''"
      "\<lparr>status_code = 500, body_text = ''unavailable'',
        json_result = Inl (OtherException ''JSONDecodeError'')\<rparr>"
      "''Chef''" chef empty_session "''hi''"]
  by (simp add: chef_known failing_endpoint_def empty_session_def init_fresh)

text \<open>
  C5: when the request times out, the call returns the fixed text "Request timed out.
  Please try again.", which differs from the text returned for a bad status or any other
  exception, and the turn completes with exactly one assistant message appended after
  the user message.
\<close>

theorem timeout_fallback:
  "(post (groq_request msgs k m) = Raises Timeout \<longrightarrow>
      call_groq_api post msgs k m =
        (JStr ''Request timed out. Please try again.'',
         [HttpPost (groq_request msgs k m),
          StError (Literal ''Request timed out. Please try again.'')]))
   \<and> (post (groq_request msgs k m) = Raises e \<longrightarrow> e \<noteq> Timeout \<longrightarrow>
      fst (call_groq_api post msgs k m) =
        JStr ''Sorry, I encountered an error processing your request.'')
   \<and> JStr ''Request timed out. Please try again.'' \<noteq>
      JStr ''Sorry, I encountered an error processing your request.''
   \<and> (map_of PERSONALITIES chosen = Some info \<longrightarrow>
      post (groq_request (api_messages (system_prompt info)
        (messages s @ [\<lparr>role = ''user'', content = JStr prompt\<rparr>])) k m) = Raises Timeout \<longrightarrow>
      ending (chat_turn post k m chosen prompt s) = Completed
      \<and> messages (session_after (chat_turn post k m chosen prompt s)) =
        (messages s @ [\<lparr>role = ''user'', content = JStr prompt\<rparr>]) @
        [\<lparr>role = ''assistant'', content = JStr ''Request timed out. Please try again.''\<rparr>])"
  by (simp add: call_raises chat_turn_known)

theorem timeout_fallback_witness:
  "timeout_endpoint (groq_request [] ''k'' ''gemma2-9b-it'') = Raises Timeout
   \<and> fst (call_groq_api timeout_endpoint [] ''k'' ''gemma2-9b-it'') =
       JStr ''Request timed out. Please try again.''
   \<and> (\<lambda>request. Raises IndexError) (groq_request [] ''k'' ''gemma2-9b-it'') = Raises IndexError
   \<and> IndexError \<noteq> Timeout
   \<and> map_of PERSONALITIES ''Chef'' = Some chef
   \<and> messages (session_after
        (chat_turn timeout_endpoint ''k'' ''gemma2-9b-it'' ''Chef'' ''hi'' empty_session)) =
       [\<lparr>role = ''user'', content = JStr ''hi''\<rparr>,
        \<lparr>role = ''assistant'', content = JStr ''Request timed out. Please try again.''\<rparr>]"
  using timeout_fallback [of timeout_endpoint "[]" "''k''" "''gemma2-9b-it''" IndexError
      "''Chef''" chef empty_session "''hi''"]
    timeout_fallback [of "\<lambda>request. Raises IndexError" "[]" "''k''" "''gemma2-9b-it''" IndexError]
  by (simp add: chef_known timeout_endpoint_def empty_session_def init_fresh)

section \<open>The missing key\<close>

text \<open>
  C7: when the session's key is the empty string (line 161 stores what the key field
  returned), the run posts no request and never offers the chat input, it does not end
  as a completed run, and the transcript it leaves is the one it found or the empty one:
  it cannot have grown.
\<close>

theorem no_key_blocks_chat:
  "groq_api_key (session_after (main post w store)) = [] \<longrightarrow>
     posted (events (main post w store)) = []
     \<and> offered (events (main post w store)) = []
     \<and> ending (main post w store) \<noteq> Completed
     \<and> (messages (session_after (main post w store)) = []
        \<or> messages (session_after (main post w store)) = messages (init_session_state store))
     \<and> length (messages (session_after (main post w store))) \<le>
        length (messages (init_session_state store))"
proof
  assume "groq_api_key (session_after (main post w store)) = []"
  then have k: "w_api_key w = []"
    by (simp add: main_key)
  from main_no_key(3) [OF k, of post store]
  have "length (messages (session_after (main post w store))) \<le>
        length (messages (init_session_state store))"
    by auto
  with main_no_key [OF k, of post store]
  show "posted (events (main post w store)) = []
     \<and> offered (events (main post w store)) = []
     \<and> ending (main post w store) \<noteq> Completed
     \<and> (messages (session_after (main post w store)) = []
        \<or> messages (session_after (main post w store)) = messages (init_session_state store))
     \<and> length (messages (session_after (main post w store))) \<le>
        length (messages (init_session_state store))"
    by simp
qed

theorem no_key_blocks_chat_witness:
  "groq_api_key (session_after (main answering_endpoint chef_selected (persist
      \<lparr>messages = [], groq_api_key = [], selected_personality = ''Doctor'',
       selected_model = ''gemma2-9b-it''\<rparr>))) = []
   \<and> posted (events (main answering_endpoint chef_selected (persist
      \<lparr>messages = [], groq_api_key = [], selected_personality = ''Doctor'',
       selected_model = ''gemma2-9b-it''\<rparr>))) = []
   \<and> offered (events (main answering_endpoint chef_selected (persist
      \<lparr>messages = [], groq_api_key = [], selected_personality = ''Doctor'',
       selected_model = ''gemma2-9b-it''\<rparr>))) = []"
  using no_key_blocks_chat [of answering_endpoint chef_selected "persist
      \<lparr>messages = [], groq_api_key = [], selected_personality = ''Doctor'',
       selected_model = ''gemma2-9b-it''\<rparr>"]
  by (simp add: chef_selected_run)

section \<open>The parameters of the request and the reply on success\<close>

text \<open>
  C8: every call posts exactly one request, with temperature 0.7, at most 1024 tokens,
  \<open>stream\<close> false and a timeout of 30 seconds; and when the endpoint answers 200 with a
  body whose first choice has a message with a content, the call returns that content.
\<close>

theorem fixed_request_parameters:
  "posted (snd (call_groq_api post msgs k m)) = [groq_request msgs k m]
   \<and> req_json (groq_request msgs k m) =
       \<lparr>data_model = m, data_messages = msgs, data_temperature = 0.7,
        data_max_tokens = 1024, data_stream = False\<rparr>
   \<and> req_timeout (groq_request msgs k m) = 30
   \<and> (post (groq_request msgs k m) = Response r \<longrightarrow> status_code r = 200 \<longrightarrow>
      json_result r = Inr (JObj body) \<longrightarrow>
      map_of body ''choices'' = Some (JArr (JObj choice # others)) \<longrightarrow>
      map_of choice ''message'' = Some (JObj msg) \<longrightarrow>
      map_of msg ''content'' = Some reply \<longrightarrow>
      fst (call_groq_api post msgs k m) = reply)"
proof (intro conjI impI)
  show "posted (snd (call_groq_api post msgs k m)) = [groq_request msgs k m]"
    by (rule posted_call)
  show "req_json (groq_request msgs k m) =
       \<lparr>data_model = m, data_messages = msgs, data_temperature = 0.7,
        data_max_tokens = 1024, data_stream = False\<rparr>"
    by (simp add: groq_request_def)
  show "req_timeout (groq_request msgs k m) = 30"
    by (simp add: groq_request_def)
next
  assume a: "post (groq_request msgs k m) = Response r" "status_code r = 200"
    "json_result r = Inr (JObj body)"
    and b: "map_of body ''choices'' = Some (JArr (JObj choice # others))"
    "map_of choice ''message'' = Some (JObj msg)" "map_of msg ''content'' = Some reply"
  from b have "extract_content (JObj body) = Inr reply"
    by (simp add: extract_content_def)
  with a show "fst (call_groq_api post msgs k m) = reply"
    by (simp add: call_200)
qed

theorem fixed_request_parameters_witness:
  "answering_endpoint (groq_request [] ''k'' ''gemma2-9b-it'') =
     Response \<lparr>status_code = 200, body_text = [],
               json_result = Inr (JObj [(''choices'',
                 JArr [JObj [(''message'',
                   JObj [(''role'', JStr ''assistant''), (''content'', JStr ''4'')])]])])\<rparr>
   \<and> fst (call_groq_api answering_endpoint [] ''k'' ''gemma2-9b-it'') = JStr ''4''"
  using fixed_request_parameters [of answering_endpoint "[]" "''k''" "''gemma2-9b-it''"
      "\<lparr>status_code = 200, body_text = [],
        json_result = Inr (JObj [(''choices'',
          JArr [JObj [(''message'',
            JObj [(''role'', JStr ''assistant''), (''content'', JStr ''4'')])]])])\<rparr>"
      "[(''choices'', JArr [JObj [(''message'',
            JObj [(''role'', JStr ''assistant''), (''content'', JStr ''4'')])]])]"
      "[(''message'', JObj [(''role'', JStr ''assistant''), (''content'', JStr ''4'')])]"
      "[]"
      "[(''role'', JStr ''assistant''), (''content'', JStr ''4'')]"
      "JStr ''4''"]
  by (simp add: answering_endpoint_def)

section \<open>The key and the request body\<close>

text \<open>
  C10: for any two keys and the same messages and model the request body is the same,
  as are the URL, the timeout and the content type: of the two headers only
  \<open>Authorization\<close> carries the key. The same holds for the request a turn posts, and for
  the one a whole run posts when both keys are non-empty. The transcript a turn stores is
  the same up to the reply just appended, and the same altogether when the endpoint
  answers both requests alike.
\<close>

theorem request_body_independent_of_key:
  "req_json (groq_request msgs k1 m) = req_json (groq_request msgs k2 m)
   \<and> req_url (groq_request msgs k1 m) = req_url (groq_request msgs k2 m)
   \<and> req_timeout (groq_request msgs k1 m) = req_timeout (groq_request msgs k2 m)
   \<and> map_of (req_headers (groq_request msgs k1 m)) ''Content-Type'' =
      map_of (req_headers (groq_request msgs k2 m)) ''Content-Type''
   \<and> map fst (req_headers (groq_request msgs k1 m)) = [''Authorization'', ''Content-Type'']
   \<and> map req_json (posted (snd (call_groq_api post msgs k1 m))) =
      map req_json (posted (snd (call_groq_api post msgs k2 m)))
   \<and> map req_json (posted (events (chat_turn post k1 m chosen prompt s))) =
      map req_json (posted (events (chat_turn post k2 m chosen prompt s)))
   \<and> butlast (messages (session_after (chat_turn post k1 m chosen prompt s))) =
      butlast (messages (session_after (chat_turn post k2 m chosen prompt s)))
   \<and> ((\<forall>sent. post (groq_request sent k1 m) = post (groq_request sent k2 m)) \<longrightarrow>
      messages (session_after (chat_turn post k1 m chosen prompt s)) =
      messages (session_after (chat_turn post k2 m chosen prompt s)))
   \<and> (k1 \<noteq> [] \<longrightarrow> k2 \<noteq> [] \<longrightarrow>
      map req_json (posted (events (main post (w\<lparr>w_api_key := k1\<rparr>) store))) =
      map req_json (posted (events (main post (w\<lparr>w_api_key := k2\<rparr>) store))))"
proof (intro conjI impI)
  show "req_json (groq_request msgs k1 m) = req_json (groq_request msgs k2 m)"
    by (simp add: groq_request_def)
  show "req_url (groq_request msgs k1 m) = req_url (groq_request msgs k2 m)"
    by (simp add: groq_request_def)
  show "req_timeout (groq_request msgs k1 m) = req_timeout (groq_request msgs k2 m)"
    by (simp add: groq_request_def)
  show "map_of (req_headers (groq_request msgs k1 m)) ''Content-Type'' =
      map_of (req_headers (groq_request msgs k2 m)) ''Content-Type''"
    by (simp add: groq_request_def)
  show "map fst (req_headers (groq_request msgs k1 m)) = [''Authorization'', ''Content-Type'']"
    by (simp add: groq_request_def)
  show "map req_json (posted (snd (call_groq_api post msgs k1 m))) =
      map req_json (posted (snd (call_groq_api post msgs k2 m)))"
    by (simp add: posted_call groq_request_def)
  show "map req_json (posted (events (chat_turn post k1 m chosen prompt s))) =
      map req_json (posted (events (chat_turn post k2 m chosen prompt s)))"
  proof (cases "map_of PERSONALITIES chosen")
    case None
    then show ?thesis by (simp add: chat_turn_def)
  next
    case (Some info)
    then show ?thesis by (simp add: chat_turn_posted groq_request_def)
  qed
  show "butlast (messages (session_after (chat_turn post k1 m chosen prompt s))) =
      butlast (messages (session_after (chat_turn post k2 m chosen prompt s)))"
  proof (cases "map_of PERSONALITIES chosen")
    case None
    then show ?thesis by (simp add: chat_turn_def)
  next
    case (Some info)
    then show ?thesis by (simp add: chat_turn_known butlast_append)
  qed
next
  assume a: "\<forall>sent. post (groq_request sent k1 m) = post (groq_request sent k2 m)"
  have replies: "fst (call_groq_api post sent k1 m) = fst (call_groq_api post sent k2 m)" for sent
    using a [rule_format, of sent]
    by (auto simp: call_groq_api_def try_post_def Let_def
        split: sum.splits http_outcome.splits py_exception.splits prod.splits if_splits)
  show "messages (session_after (chat_turn post k1 m chosen prompt s)) =
      messages (session_after (chat_turn post k2 m chosen prompt s))"
  proof (cases "map_of PERSONALITIES chosen")
    case None
    then show ?thesis by (simp add: chat_turn_def)
  next
    case (Some info)
    with replies show ?thesis by (simp add: chat_turn_known)
  qed
next
  assume "k1 \<noteq> []" "k2 \<noteq> []"
  then show "map req_json (posted (events (main post (w\<lparr>w_api_key := k1\<rparr>) store))) =
      map req_json (posted (events (main post (w\<lparr>w_api_key := k2\<rparr>) store)))"
    by (rule main_posted_bodies)
qed

theorem request_body_independent_of_key_witness:
  "(\<forall>sent. timeout_endpoint (groq_request sent ''a'' ''gemma2-9b-it'') =
            timeout_endpoint (groq_request sent ''b'' ''gemma2-9b-it''))
   \<and> messages (session_after
        (chat_turn timeout_endpoint ''a'' ''gemma2-9b-it'' ''Chef'' ''hi'' empty_session)) =
      messages (session_after
        (chat_turn timeout_endpoint ''b'' ''gemma2-9b-it'' ''Chef'' ''hi'' empty_session))
   \<and> ''a'' \<noteq> [] \<and> ''b'' \<noteq> []
   \<and> map req_json (posted (events
        (main timeout_endpoint (chef_question\<lparr>w_api_key := ''a''\<rparr>) fresh_store))) =
      map req_json (posted (events
        (main timeout_endpoint (chef_question\<lparr>w_api_key := ''b''\<rparr>) fresh_store)))"
  using request_body_independent_of_key [of "[]" "''a''" "''gemma2-9b-it''" "''b''"
      timeout_endpoint "''Chef''" "''hi''" empty_session chef_question fresh_store]
  by (simp add: timeout_endpoint_def)

end
